theory Spec2Isabelle
  imports Main
begin

section \<open>The command-line shim \<open>whisper_transcribe.py\<close>\<close>

text \<open>
  The script is a straight line of statements with two guarded early exits:
  \<^verbatim>\<open>
  import sys
  try:
      import whisper
  except ImportError:
      print('Whisper not installed. Please run: pip install openai-whisper', file=sys.stderr)
      sys.exit(1)

  if len(sys.argv) < 2:
      print('Usage: python whisper_transcribe.py <audio_path>', file=sys.stderr)
      sys.exit(1)

  model = whisper.load_model('base')
  result = model.transcribe(sys.argv[1])
  print(result['text'])
  \<close>
  Everything it does is an effect, so the model makes the effects explicit: one run maps
  an invocation and the state of the outside world to the events the process performed,
  its exit status and the world it leaves behind.
\<close>

subsection \<open>Python values and exceptions\<close>

text \<open>
  A value stored in the dictionary that \<open>transcribe\<close> returns: a string, or any other
  object, which is represented by the text that \<open>str()\<close> gives for it (all that
  \<open>print\<close> looks at). A text is a list of characters with codes 0 to 255; the codes from
  128 on are its non-ASCII characters.
\<close>

datatype pyval = PStr string | PObj string

fun py_str :: "pyval \<Rightarrow> string" where
  "py_str (PStr s) = s"
| "py_str (PObj r) = r"

text \<open>The transcription result is a dictionary with string keys.\<close>

type_synonym result = "string \<rightharpoonup> pyval"

text \<open>
  An error: an instance of a subclass of \<open>Exception\<close>, given by the names of its class and
  of the classes above it (most specific first) and by its message. \<open>SystemExit\<close> and
  \<open>KeyboardInterrupt\<close> are not errors and are not values of this type.
\<close>

datatype exn = Exn (exn_mro: "string list") (exn_msg: string)

definition isinstance :: "exn \<Rightarrow> string \<Rightarrow> bool" where
  "isinstance e c = (c \<in> set (exn_mro e))"

text \<open>
  \<open>d[k]\<close> on a dictionary raises \<open>KeyError(k)\<close> when the key is missing; the message of a
  \<open>KeyError\<close> is the key in quotes.
\<close>

definition KeyError :: "string \<Rightarrow> exn" where
  "KeyError k = Exn [''KeyError'', ''LookupError'', ''Exception''] ([CHR 0x27] @ k @ [CHR 0x27])"

definition getitem :: "result \<Rightarrow> string \<Rightarrow> exn + pyval" where
  "getitem d k = (case d k of None \<Rightarrow> Inl (KeyError k) | Some v \<Rightarrow> Inr v)"

subsection \<open>The outside world and the speech-recognition capability\<close>

text \<open>
  What exists outside the process: the environment variables and the file system
  (the audio file, configuration files, installed packages and their bytecode caches,
  cached model weights).
\<close>

record world =
  environ :: "string \<rightharpoonup> string"
  files :: "string \<rightharpoonup> string"

text \<open>
  The capability is opaque. \<open>whisper.load_model(name)\<close> returns a model or raises, and
  \<open>model.transcribe(path)\<close> returns a result dictionary or raises; both may read and
  change the world.
\<close>

record model =
  transcribe :: "string \<Rightarrow> world \<Rightarrow> (exn + result) \<times> world"

record whisper =
  load_model :: "string \<Rightarrow> world \<Rightarrow> (exn + model) \<times> world"

text \<open>
  The statement \<open>import whisper\<close> binds the module or raises. What it does depends on the
  world (the packages that are installed), and it may change the world (bytecode caches,
  whatever the module's own code does when it is loaded).
\<close>

datatype import_outcome = Imported whisper | Import_raised exn

record invocation =
  import_whisper :: "world \<Rightarrow> import_outcome \<times> world"
  argv :: "string list"

fun is_imported :: "import_outcome \<Rightarrow> bool" where
  "is_imported (Imported wh) = True"
| "is_imported (Import_raised e) = False"

subsection \<open>Standard output and its encoding\<close>

text \<open>
  The interpreter fixes the encoding of standard output when the process starts: the
  environment variable \<open>PYTHONIOENCODING\<close> names it, and without it the locale decides,
  which is taken to be a UTF-8 locale here. Two codecs are told apart: ASCII, which rejects
  every character from 128 on, and UTF-8, which takes every text; any other name is read
  as UTF-8.
\<close>

datatype encoding = Ascii | Utf8

fun encodable :: "encoding \<Rightarrow> string \<Rightarrow> bool" where
  "encodable Ascii s = list_all (\<lambda>c. (of_char c :: nat) < 128) s"
| "encodable Utf8 s = True"

fun codec_name :: "encoding \<Rightarrow> string" where
  "codec_name Ascii = ''ascii''"
| "codec_name Utf8 = ''utf-8''"

definition stdout_encoding :: "world \<Rightarrow> encoding" where
  "stdout_encoding w =
     (case environ w ''PYTHONIOENCODING'' of
        None \<Rightarrow> Utf8
      | Some n \<Rightarrow> if n = ''ascii'' then Ascii else Utf8)"

text \<open>
  Writing a text that the codec rejects raises \<open>UnicodeEncodeError\<close> before anything is
  written. Its message, which names the codec, the offending characters and their
  positions, is cut down to the codec's name.
\<close>

definition UnicodeEncodeError :: "encoding \<Rightarrow> exn" where
  "UnicodeEncodeError enc =
     Exn [''UnicodeEncodeError'', ''UnicodeError'', ''ValueError'', ''Exception'']
         (codec_name enc)"

subsection \<open>Observable behaviour\<close>

text \<open>
  The events of a run, in the order they happen: the calls into the capability and their
  normal returns, the texts printed on the two streams, and the report that the
  interpreter writes on standard error for an exception nobody caught. Standard error
  replaces what it cannot encode and so takes every text; what the capability itself may
  print is not part of the trace.
\<close>

datatype event =
    Call_load_model string
  | Ret_load_model
  | Call_transcribe string
  | Ret_transcribe
  | Stdout string
  | Stderr string
  | Traceback exn

record outcome =
  trace :: "event list"
  status :: int

fun stdout_of :: "event list \<Rightarrow> string" where
  "stdout_of [] = []"
| "stdout_of (Stdout s # es) = s @ stdout_of es"
| "stdout_of (e # es) = stdout_of es"

fun capability_calls :: "event list \<Rightarrow> event list" where
  "capability_calls [] = []"
| "capability_calls (Call_load_model n # es) = Call_load_model n # capability_calls es"
| "capability_calls (Call_transcribe p # es) = Call_transcribe p # capability_calls es"
| "capability_calls (e # es) = capability_calls es"

text \<open>The model names asked of \<open>load_model\<close>, in order.\<close>

fun requested_models :: "event list \<Rightarrow> string list" where
  "requested_models [] = []"
| "requested_models (Call_load_model n # es) = n # requested_models es"
| "requested_models (e # es) = requested_models es"

text \<open>
  \<open>print(x)\<close> writes \<open>str(x)\<close> and a newline on standard output, or raises when the
  stream's codec rejects the text.
\<close>

definition newline :: string where
  "newline = [CHR 0x0A]"

definition print_stdout :: "encoding \<Rightarrow> string \<Rightarrow> exn + event" where
  "print_stdout enc s =
     (if encodable enc s then Inr (Stdout (s @ newline)) else Inl (UnicodeEncodeError enc))"

definition install_msg :: string where
  "install_msg = ''Whisper not installed. Please run: pip install openai-whisper''"

definition usage_msg :: string where
  "usage_msg = ''Usage: python whisper_transcribe.py <audio_path>''"

text \<open>
  An exception that reaches the top level ends the process: the interpreter reports it
  on standard error and the exit status is 1.
\<close>

definition unhandled :: "event list \<Rightarrow> exn \<Rightarrow> outcome" where
  "unhandled tr e = \<lparr>trace = tr @ [Traceback e], status = 1\<rparr>"

subsection \<open>The script\<close>

definition run :: "invocation \<Rightarrow> world \<Rightarrow> outcome \<times> world" where
  "run iv w =
    (case import_whisper iv w of
       (Import_raised e, w0) \<Rightarrow>
         if isinstance e ''ImportError''
         then (\<lparr>trace = [Stderr (install_msg @ newline)], status = 1\<rparr>, w0)
         else (unhandled [] e, w0)
     | (Imported wh, w0) \<Rightarrow>
         if length (argv iv) < 2
         then (\<lparr>trace = [Stderr (usage_msg @ newline)], status = 1\<rparr>, w0)
         else
           (case load_model wh ''base'' w0 of
              (Inl e, w1) \<Rightarrow> (unhandled [Call_load_model ''base''] e, w1)
            | (Inr m, w1) \<Rightarrow>
                (case transcribe m (argv iv ! 1) w1 of
                   (Inl e, w2) \<Rightarrow>
                     (unhandled [Call_load_model ''base'', Ret_load_model,
                                 Call_transcribe (argv iv ! 1)] e, w2)
                 | (Inr r, w2) \<Rightarrow>
                     (case getitem r ''text'' of
                        Inl e \<Rightarrow>
                          (unhandled [Call_load_model ''base'', Ret_load_model,
                                      Call_transcribe (argv iv ! 1), Ret_transcribe] e, w2)
                      | Inr v \<Rightarrow>
                          (case print_stdout (stdout_encoding w) (py_str v) of
                             Inl e \<Rightarrow>
                               (unhandled [Call_load_model ''base'', Ret_load_model,
                                           Call_transcribe (argv iv ! 1), Ret_transcribe] e,
                                w2)
                           | Inr ev \<Rightarrow>
                               (\<lparr>trace = [Call_load_model ''base'', Ret_load_model,
                                          Call_transcribe (argv iv ! 1), Ret_transcribe, ev],
                                 status = 0\<rparr>, w2))))))"

subsection \<open>Frame conditions on the capability\<close>






subsection \<open>Example capabilities and invocations\<close>

text \<open>A model that answers every path with the same result, and one that always raises.\<close>

definition stub_model :: "result \<Rightarrow> model" where
  "stub_model r = \<lparr>transcribe = (\<lambda>p w. (Inr r, w))\<rparr>"

definition failing_model :: "exn \<Rightarrow> model" where
  "failing_model e = \<lparr>transcribe = (\<lambda>p w. (Inl e, w))\<rparr>"

definition stub_whisper :: "model \<Rightarrow> whisper" where
  "stub_whisper m = \<lparr>load_model = (\<lambda>n w. (Inr m, w))\<rparr>"

definition failing_whisper :: "exn \<Rightarrow> whisper" where
  "failing_whisper e = \<lparr>load_model = (\<lambda>n w. (Inl e, w))\<rparr>"

text \<open>A module that knows the model \<open>base\<close> only and raises for every other name.\<close>

definition base_only_whisper :: "model \<Rightarrow> exn \<Rightarrow> whisper" where
  "base_only_whisper m e =
     \<lparr>load_model = (\<lambda>n w. if n = ''base'' then (Inr m, w) else (Inl e, w))\<rparr>"

text \<open>
  A capability that uses the file system: loading a model stores its weights in a cache
  file, and transcribing reads the audio file (the transcript is its content here) or
  raises when there is none.
\<close>

definition FileNotFoundError :: "string \<Rightarrow> exn" where
  "FileNotFoundError p = Exn [''FileNotFoundError'', ''OSError'', ''Exception''] p"

definition file_model :: model where
  "file_model =
     \<lparr>transcribe = (\<lambda>p w. case files w p of
                              None \<Rightarrow> (Inl (FileNotFoundError p), w)
                            | Some c \<Rightarrow> (Inr [''text'' \<mapsto> PStr c], w))\<rparr>"

definition caching_whisper :: whisper where
  "caching_whisper =
     \<lparr>load_model = (\<lambda>n w. (Inr file_model, w\<lparr>files := (files w)(n @ ''.pt'' \<mapsto> ''weights'')\<rparr>))\<rparr>"

text \<open>
  Imports: one that binds a module and leaves the world alone, one that raises, and one
  that binds a module and writes its bytecode cache.
\<close>

definition importing :: "whisper \<Rightarrow> world \<Rightarrow> import_outcome \<times> world" where
  "importing wh w = (Imported wh, w)"

definition import_raising :: "exn \<Rightarrow> world \<Rightarrow> import_outcome \<times> world" where
  "import_raising e w = (Import_raised e, w)"

definition compiling_import :: "whisper \<Rightarrow> world \<Rightarrow> import_outcome \<times> world" where
  "compiling_import wh w =
     (Imported wh, w\<lparr>files := (files w)(''__pycache__/whisper.pyc'' \<mapsto> ''bytecode'')\<rparr>)"

definition empty_world :: world where
  "empty_world = \<lparr>environ = Map.empty, files = Map.empty\<rparr>"

definition audio_world :: world where
  "audio_world =
     \<lparr>environ = Map.empty,
      files = [''a.wav'' \<mapsto> ''hello world'', ''b.wav'' \<mapsto> ''good bye'']\<rparr>"


definition hello_result :: result where
  "hello_result = [''text'' \<mapsto> PStr ''hello world'', ''language'' \<mapsto> PStr ''en'']"

definition hello_invocation :: invocation where
  "hello_invocation =
     \<lparr>import_whisper = importing (stub_whisper (stub_model hello_result)),
      argv = [''whisper_transcribe.py'', ''a.wav'']\<rparr>"

definition rich_result :: result where
  "rich_result = [''text'' \<mapsto> PStr ''hello world'', ''segments'' \<mapsto> PObj ''[]'']"

definition rich_invocation :: invocation where
  "rich_invocation =
     \<lparr>import_whisper = importing (stub_whisper (stub_model rich_result)),
      argv = [''whisper_transcribe.py'', ''b.mp3'', ''c.mp3'']\<rparr>"

definition textless_result :: result where
  "textless_result = [''language'' \<mapsto> PStr ''en'']"



definition file_invocation :: invocation where
  "file_invocation =
     \<lparr>import_whisper = compiling_import caching_whisper,
      argv = [''whisper_transcribe.py'', ''a.wav'', ''b.wav'']\<rparr>"


definition ModuleNotFoundError :: exn where
  "ModuleNotFoundError =
     Exn [''ModuleNotFoundError'', ''ImportError'', ''Exception''] ''No module named whisper''"

definition dll_load_failed :: exn where
  "dll_load_failed = Exn [''OSError'', ''Exception''] ''DLL load failed''"

definition unsupported_format :: exn where
  "unsupported_format = Exn [''RuntimeError'', ''Exception''] ''unsupported format''"

section \<open>Properties\<close>

lemmas stub_defs =
  stub_whisper_def stub_model_def failing_whisper_def failing_model_def importing_def
  import_raising_def




text \<open>
  C2. With the capability imported and no argument after the program name, the program
  prints the usage message on standard error and nothing else, standard output stays
  empty, and the exit status is 1.
\<close>

theorem missing_argument_usage:
  assumes "import_whisper iv w = (Imported wh, w0)"
    and "length (argv iv) \<le> 1"
  shows "trace (fst (run iv w))
           = [Stderr (''Usage: python whisper_transcribe.py <audio_path>'' @ newline)]
         \<and> stdout_of (trace (fst (run iv w))) = []
         \<and> status (fst (run iv w)) = 1"
  using assms by (simp add: run_def usage_msg_def)

theorem missing_argument_usage_witness:
  "trace (fst (run (hello_invocation\<lparr>argv := [''whisper_transcribe.py'']\<rparr>) empty_world))
     = [Stderr (''Usage: python whisper_transcribe.py <audio_path>'' @ newline)]
   \<and> stdout_of (trace (fst (run (hello_invocation\<lparr>argv := [''whisper_transcribe.py'']\<rparr>)
                                empty_world))) = []
   \<and> status (fst (run (hello_invocation\<lparr>argv := [''whisper_transcribe.py'']\<rparr>) empty_world)) = 1"
proof -
  have 1: "import_whisper (hello_invocation\<lparr>argv := [''whisper_transcribe.py'']\<rparr>) empty_world
           = (Imported (stub_whisper (stub_model hello_result)), empty_world)"
    by (simp add: hello_invocation_def stub_defs)
  have 2: "length (argv (hello_invocation\<lparr>argv := [''whisper_transcribe.py'']\<rparr>)) \<le> 1"
    by simp
  show ?thesis
    by (rule missing_argument_usage [OF 1 2])
qed

text \<open>
  C3, as amended. When \<open>import whisper\<close> raises an \<open>ImportError\<close> (or an instance of a
  subclass of it), whatever the arguments are, the program prints the message that names
  the package to install on standard error and nothing else, standard output stays empty
  and the exit status is 1; no call into the capability is made, the world is as the
  failed import left it, and the run is the same for every argument list (the argument
  check is never reached).
\<close>

theorem import_error_remediation:
  assumes "import_whisper iv w = (Import_raised e, w0)"
    and "isinstance e ''ImportError''"
  shows "trace (fst (run iv w))
           = [Stderr (''Whisper not installed. Please run: pip install openai-whisper'' @ newline)]
         \<and> stdout_of (trace (fst (run iv w))) = []
         \<and> status (fst (run iv w)) = 1
         \<and> capability_calls (trace (fst (run iv w))) = []
         \<and> snd (run iv w) = w0
         \<and> (\<forall>args. run (iv\<lparr>argv := args\<rparr>) w = run iv w)"
  using assms by (simp add: run_def install_msg_def)

theorem import_error_remediation_witness:
  "trace (fst (run \<lparr>import_whisper = import_raising ModuleNotFoundError,
                    argv = [''whisper_transcribe.py'', ''a.wav'']\<rparr> audio_world))
     = [Stderr (''Whisper not installed. Please run: pip install openai-whisper'' @ newline)]
   \<and> status (fst (run \<lparr>import_whisper = import_raising ModuleNotFoundError,
                       argv = [''whisper_transcribe.py'', ''a.wav'']\<rparr> audio_world)) = 1
   \<and> snd (run \<lparr>import_whisper = import_raising ModuleNotFoundError,
                argv = [''whisper_transcribe.py'', ''a.wav'']\<rparr> audio_world) = audio_world"
proof -
  have 1: "import_whisper \<lparr>import_whisper = import_raising ModuleNotFoundError,
                           argv = [''whisper_transcribe.py'', ''a.wav'']\<rparr> audio_world
           = (Import_raised ModuleNotFoundError, audio_world)"
    by (simp add: stub_defs)
  have 2: "isinstance ModuleNotFoundError ''ImportError''"
    by (simp add: isinstance_def ModuleNotFoundError_def)
  show ?thesis
    using import_error_remediation [OF 1 2] by simp
qed

text \<open>
  C3 as it was stated fails: the capability cannot be imported either when the import
  raises an exception that is not an \<open>ImportError\<close> (an \<open>OSError\<close> for a library that does
  not load, say). The \<open>except\<close> clause does not catch it: no remediation message is
  printed, and the run ends with the interpreter's report of the exception.
\<close>

theorem import_error_remediation_counterexample:
  "import_whisper \<lparr>import_whisper = import_raising dll_load_failed,
                   argv = [''whisper_transcribe.py'', ''a.wav'']\<rparr> audio_world
     = (Import_raised dll_load_failed, audio_world)
   \<and> \<not> isinstance dll_load_failed ''ImportError''
   \<and> trace (fst (run \<lparr>import_whisper = import_raising dll_load_failed,
                       argv = [''whisper_transcribe.py'', ''a.wav'']\<rparr> audio_world))
       = [Traceback dll_load_failed]
   \<and> Stderr (''Whisper not installed. Please run: pip install openai-whisper'' @ newline)
       \<notin> set (trace (fst (run \<lparr>import_whisper = import_raising dll_load_failed,
                                argv = [''whisper_transcribe.py'', ''a.wav'']\<rparr> audio_world)))"
  by (simp add: run_def unhandled_def isinstance_def dll_load_failed_def stub_defs)

text \<open>
  C4. With the capability imported and an audio path supplied, an error raised by
  \<open>load_model\<close> or by \<open>transcribe\<close> is neither caught nor translated: the run ends with
  the interpreter's report of that very exception on standard error, the program prints
  no message of its own, standard output stays empty and the exit status is not 0.
\<close>

theorem capability_error_propagates:
  assumes "import_whisper iv w = (Imported wh, w0)"
    and "2 \<le> length (argv iv)"
    and "load_model wh ''base'' w0 = (Inl e, w1)
         \<or> (\<exists>m w'. load_model wh ''base'' w0 = (Inr m, w')
                   \<and> transcribe m (argv iv ! 1) w' = (Inl e, w1))"
  shows "last (trace (fst (run iv w))) = Traceback e
         \<and> (\<forall>s. Stderr s \<notin> set (trace (fst (run iv w))))
         \<and> stdout_of (trace (fst (run iv w))) = []
         \<and> status (fst (run iv w)) \<noteq> 0"
  using assms by (auto simp add: run_def unhandled_def)

text \<open>One run where loading fails and one where transcription fails.\<close>

theorem capability_error_propagates_witness:
  "(last (trace (fst (run (hello_invocation
            \<lparr>import_whisper := importing (failing_whisper unsupported_format)\<rparr>) empty_world)))
      = Traceback unsupported_format
    \<and> status (fst (run (hello_invocation
            \<lparr>import_whisper := importing (failing_whisper unsupported_format)\<rparr>) empty_world)) \<noteq> 0)
   \<and> (last (trace (fst (run (hello_invocation
            \<lparr>import_whisper := importing (stub_whisper (failing_model unsupported_format))\<rparr>)
            empty_world)))
      = Traceback unsupported_format
    \<and> stdout_of (trace (fst (run (hello_invocation
            \<lparr>import_whisper := importing (stub_whisper (failing_model unsupported_format))\<rparr>)
            empty_world))) = [])"
proof -
  let ?a = "hello_invocation\<lparr>import_whisper := importing (failing_whisper unsupported_format)\<rparr>"
  let ?b = "hello_invocation
              \<lparr>import_whisper := importing (stub_whisper (failing_model unsupported_format))\<rparr>"
  have a1: "import_whisper ?a empty_world
            = (Imported (failing_whisper unsupported_format), empty_world)"
    by (simp add: importing_def)
  have a2: "2 \<le> length (argv ?a)"
    by (simp add: hello_invocation_def)
  have a3: "load_model (failing_whisper unsupported_format) ''base'' empty_world
              = (Inl unsupported_format, empty_world)
            \<or> (\<exists>m w'. load_model (failing_whisper unsupported_format) ''base'' empty_world
                        = (Inr m, w')
                      \<and> transcribe m (argv ?a ! 1) w' = (Inl unsupported_format, empty_world))"
    by (simp add: stub_defs)
  have b1: "import_whisper ?b empty_world
            = (Imported (stub_whisper (failing_model unsupported_format)), empty_world)"
    by (simp add: importing_def)
  have b2: "2 \<le> length (argv ?b)"
    by (simp add: hello_invocation_def)
  have b3: "load_model (stub_whisper (failing_model unsupported_format)) ''base'' empty_world
              = (Inl unsupported_format, empty_world)
            \<or> (\<exists>m w'. load_model (stub_whisper (failing_model unsupported_format)) ''base''
                          empty_world = (Inr m, w')
                      \<and> transcribe m (argv ?b ! 1) w' = (Inl unsupported_format, empty_world))"
    by (simp add: stub_defs)
  show ?thesis
    using capability_error_propagates [OF a1 a2 a3] capability_error_propagates [OF b1 b2 b3]
    by simp
qed

text \<open>
  C5. The model is requested by the fixed name \<open>base\<close>, whatever the audio path is.
  First, a run asks \<open>load_model\<close> for a model exactly when the capability is imported and
  an audio path is supplied, and then once, for \<open>base\<close>. Second, what the module does for
  any other name is irrelevant: two modules that answer alike for \<open>base\<close> at the point of
  the call give the same run, however they differ elsewhere. Third, the answer for \<open>base\<close>
  is the one the run uses: when \<open>load_model\<close> raises for \<open>base\<close>, the run ends with that
  error in the world this call left. Fourth, two invocations that differ in the audio
  path request the same names.
\<close>

theorem model_name_fixed:
  "requested_models (trace (fst (run iv w)))
     = (if is_imported (fst (import_whisper iv w)) \<and> 2 \<le> length (argv iv)
        then [''base''] else [])
   \<and> (import_whisper iv w = (Imported wh, w0) \<and> import_whisper iv' w = (Imported wh', w0)
        \<and> argv iv' = argv iv \<and> load_model wh' ''base'' w0 = load_model wh ''base'' w0
      \<longrightarrow> run iv' w = run iv w)
   \<and> (import_whisper iv w = (Imported wh, w0) \<and> 2 \<le> length (argv iv)
        \<and> load_model wh ''base'' w0 = (Inl e, w1)
      \<longrightarrow> run iv w = (unhandled [Call_load_model ''base''] e, w1))
   \<and> requested_models (trace (fst (run (iv\<lparr>argv := [prog, a]\<rparr>) w)))
       = requested_models (trace (fst (run (iv\<lparr>argv := [prog, b]\<rparr>) w)))"
proof (intro conjI impI)
  show "requested_models (trace (fst (run iv w)))
     = (if is_imported (fst (import_whisper iv w)) \<and> 2 \<le> length (argv iv)
        then [''base''] else [])"
    by (auto simp add: run_def unhandled_def print_stdout_def
             split: import_outcome.splits prod.splits sum.splits)
next
  assume "import_whisper iv w = (Imported wh, w0) \<and> import_whisper iv' w = (Imported wh', w0)
        \<and> argv iv' = argv iv \<and> load_model wh' ''base'' w0 = load_model wh ''base'' w0"
  then have "import_whisper iv w = (Imported wh, w0)"
    and "import_whisper iv' w = (Imported wh', w0)"
    and "argv iv' = argv iv"
    and "load_model wh' ''base'' w0 = load_model wh ''base'' w0"
    by simp_all
  then show "run iv' w = run iv w"
    by (simp add: run_def split: prod.splits sum.splits)
next
  assume "import_whisper iv w = (Imported wh, w0) \<and> 2 \<le> length (argv iv)
        \<and> load_model wh ''base'' w0 = (Inl e, w1)"
  then have "import_whisper iv w = (Imported wh, w0)"
    and "2 \<le> length (argv iv)"
    and "load_model wh ''base'' w0 = (Inl e, w1)"
    by simp_all
  then show "run iv w = (unhandled [Call_load_model ''base''] e, w1)"
    by (simp add: run_def)
next
  show "requested_models (trace (fst (run (iv\<lparr>argv := [prog, a]\<rparr>) w)))
       = requested_models (trace (fst (run (iv\<lparr>argv := [prog, b]\<rparr>) w)))"
    by (auto simp add: run_def unhandled_def print_stdout_def
             split: import_outcome.splits prod.splits sum.splits)
qed

text \<open>
  A module that raises for every name but \<open>base\<close> runs like one that knows every name; a
  module that raises for \<open>base\<close> ends the run with that error.
\<close>

theorem model_name_fixed_witness:
  "requested_models (trace (fst (run hello_invocation empty_world))) = [''base'']
   \<and> run (hello_invocation\<lparr>import_whisper :=
             importing (base_only_whisper (stub_model hello_result) unsupported_format)\<rparr>)
          empty_world
       = run hello_invocation empty_world
   \<and> run (hello_invocation\<lparr>import_whisper := importing (failing_whisper unsupported_format)\<rparr>)
          empty_world
       = (unhandled [Call_load_model ''base''] unsupported_format, empty_world)"
proof -
  let ?b = "hello_invocation\<lparr>import_whisper :=
              importing (base_only_whisper (stub_model hello_result) unsupported_format)\<rparr>"
  let ?f = "hello_invocation\<lparr>import_whisper := importing (failing_whisper unsupported_format)\<rparr>"
  have 1: "is_imported (fst (import_whisper hello_invocation empty_world))
           \<and> 2 \<le> length (argv hello_invocation)"
    by (simp add: hello_invocation_def stub_defs)
  have 2: "import_whisper hello_invocation empty_world
             = (Imported (stub_whisper (stub_model hello_result)), empty_world)
           \<and> import_whisper ?b empty_world
             = (Imported (base_only_whisper (stub_model hello_result) unsupported_format),
                empty_world)
           \<and> argv ?b = argv hello_invocation
           \<and> load_model (base_only_whisper (stub_model hello_result) unsupported_format)
               ''base'' empty_world
             = load_model (stub_whisper (stub_model hello_result)) ''base'' empty_world"
    by (simp add: hello_invocation_def stub_defs base_only_whisper_def)
  have 3: "import_whisper ?f empty_world
             = (Imported (failing_whisper unsupported_format), empty_world)
           \<and> 2 \<le> length (argv ?f)
           \<and> load_model (failing_whisper unsupported_format) ''base'' empty_world
             = (Inl unsupported_format, empty_world)"
    by (simp add: hello_invocation_def stub_defs)
  show ?thesis
    using 1 2 3
      model_name_fixed [of hello_invocation empty_world
        "stub_whisper (stub_model hello_result)" empty_world ?b
        "base_only_whisper (stub_model hello_result) unsupported_format"]
      model_name_fixed [of ?f empty_world "failing_whisper unsupported_format" empty_world
        ?f "failing_whisper unsupported_format" unsupported_format empty_world]
    by simp
qed

text \<open>The shapes a trace can have, one for each way the script can end.\<close>

lemma run_trace_cases:
  "\<exists>e s p. trace (fst (run iv w)) \<in>
     {[Stderr s], [Traceback e], [Call_load_model ''base'', Traceback e],
      [Call_load_model ''base'', Ret_load_model, Call_transcribe p, Traceback e],
      [Call_load_model ''base'', Ret_load_model, Call_transcribe p, Ret_transcribe, Traceback e],
      [Call_load_model ''base'', Ret_load_model, Call_transcribe p, Ret_transcribe, Stdout s]}"
  by (auto simp add: run_def unhandled_def print_stdout_def
           split: import_outcome.splits if_splits prod.splits sum.splits)

text \<open>
  C6. Wherever a write to standard output occurs in the trace of a run, the return of
  the transcription call occurs before it, and no other write to standard output occurs
  before or after it.
\<close>

theorem stdout_only_after_transcription:
  assumes "trace (fst (run iv w)) = before @ Stdout s # after"
  shows "Ret_transcribe \<in> set before
         \<and> (\<forall>s'. Stdout s' \<notin> set before \<and> Stdout s' \<notin> set after)"
proof -
  obtain e s0 p where "trace (fst (run iv w)) \<in>
     {[Stderr s0], [Traceback e], [Call_load_model ''base'', Traceback e],
      [Call_load_model ''base'', Ret_load_model, Call_transcribe p, Traceback e],
      [Call_load_model ''base'', Ret_load_model, Call_transcribe p, Ret_transcribe, Traceback e],
      [Call_load_model ''base'', Ret_load_model, Call_transcribe p, Ret_transcribe, Stdout s0]}"
    using run_trace_cases by blast
  with assms show ?thesis
    by (auto simp add: append_eq_Cons_conv Cons_eq_append_conv)
qed

theorem stdout_only_after_transcription_witness:
  "trace (fst (run hello_invocation empty_world))
     = [Call_load_model ''base'', Ret_load_model, Call_transcribe ''a.wav'', Ret_transcribe]
       @ Stdout (''hello world'' @ newline) # []
   \<and> Ret_transcribe
       \<in> set [Call_load_model ''base'', Ret_load_model, Call_transcribe ''a.wav'', Ret_transcribe]"
proof -
  have 1: "trace (fst (run hello_invocation empty_world))
     = [Call_load_model ''base'', Ret_load_model, Call_transcribe ''a.wav'', Ret_transcribe]
       @ Stdout (''hello world'' @ newline) # []"
    by (simp add: run_def getitem_def print_stdout_def stdout_encoding_def empty_world_def
                  hello_invocation_def hello_result_def stub_defs)
  show ?thesis
    using 1 stdout_only_after_transcription [OF 1] by blast
qed

text \<open>
  C7. Two runs of the program on the same standard output (the same encoding) that both
  reach the end of transcription, with results whose \<open>text\<close> fields are equal (both the
  same value, or both missing), have the same standard output and the same exit status,
  however the two results differ elsewhere.
\<close>

theorem only_text_field_consumed:
  assumes "import_whisper iv1 w1 = (Imported wh1, w1a)" and "2 \<le> length (argv iv1)"
    and "load_model wh1 ''base'' w1a = (Inr m1, w1b)"
    and "transcribe m1 (argv iv1 ! 1) w1b = (Inr r1, w1c)"
    and "import_whisper iv2 w2 = (Imported wh2, w2a)" and "2 \<le> length (argv iv2)"
    and "load_model wh2 ''base'' w2a = (Inr m2, w2b)"
    and "transcribe m2 (argv iv2 ! 1) w2b = (Inr r2, w2c)"
    and "stdout_encoding w1 = stdout_encoding w2"
    and "r1 ''text'' = r2 ''text''"
  shows "stdout_of (trace (fst (run iv1 w1))) = stdout_of (trace (fst (run iv2 w2)))
         \<and> status (fst (run iv1 w1)) = status (fst (run iv2 w2))"
  using assms
  by (auto simp add: run_def unhandled_def getitem_def print_stdout_def split: option.splits)

text \<open>Two results with the same text, one with a language and one with segments.\<close>

theorem only_text_field_consumed_witness:
  "hello_result ''language'' \<noteq> rich_result ''language''
   \<and> hello_result ''segments'' \<noteq> rich_result ''segments''
   \<and> stdout_of (trace (fst (run hello_invocation empty_world)))
       = stdout_of (trace (fst (run rich_invocation audio_world)))
   \<and> status (fst (run hello_invocation empty_world))
       = status (fst (run rich_invocation audio_world))"
proof -
  have 1: "import_whisper hello_invocation empty_world
           = (Imported (stub_whisper (stub_model hello_result)), empty_world)"
    by (simp add: hello_invocation_def stub_defs)
  have 2: "2 \<le> length (argv hello_invocation)"
    by (simp add: hello_invocation_def)
  have 3: "load_model (stub_whisper (stub_model hello_result)) ''base'' empty_world
           = (Inr (stub_model hello_result), empty_world)"
    by (simp add: stub_defs)
  have 4: "transcribe (stub_model hello_result) (argv hello_invocation ! 1) empty_world
           = (Inr hello_result, empty_world)"
    by (simp add: stub_defs)
  have 5: "import_whisper rich_invocation audio_world
           = (Imported (stub_whisper (stub_model rich_result)), audio_world)"
    by (simp add: rich_invocation_def stub_defs)
  have 6: "2 \<le> length (argv rich_invocation)"
    by (simp add: rich_invocation_def)
  have 7: "load_model (stub_whisper (stub_model rich_result)) ''base'' audio_world
           = (Inr (stub_model rich_result), audio_world)"
    by (simp add: stub_defs)
  have 8: "transcribe (stub_model rich_result) (argv rich_invocation ! 1) audio_world
           = (Inr rich_result, audio_world)"
    by (simp add: stub_defs)
  have 9: "stdout_encoding empty_world = stdout_encoding audio_world"
    by (simp add: stdout_encoding_def empty_world_def audio_world_def)
  have 10: "hello_result ''text'' = rich_result ''text''"
    by (simp add: hello_result_def rich_result_def)
  have 11: "hello_result ''language'' \<noteq> rich_result ''language''
            \<and> hello_result ''segments'' \<noteq> rich_result ''segments''"
    by (simp add: hello_result_def rich_result_def)
  show ?thesis
    using 11 only_text_field_consumed [OF 1 2 3 4 5 6 7 8 9 10] by simp
qed




text \<open>
  C9. With the capability imported and the argument list made of the program name, a
  first argument and any further arguments, the guard lets the invocation pass and the
  run is the run with the first argument alone. The run is not the usage error and asks
  for the model \<open>base\<close>; the path given to \<open>transcribe\<close> is the first argument: when
  \<open>transcribe\<close> raises for that path the run ends with that error, and when it returns a
  text that standard output can encode, that text is what is printed. The further
  arguments change nothing.
\<close>

theorem extra_arguments_ignored:
  assumes "import_whisper iv w = (Imported wh, w0)"
    and "argv iv = prog # path # extra"
  shows "run iv w = run (iv\<lparr>argv := [prog, path]\<rparr>) w
    \<and> trace (fst (run iv w)) \<noteq> [Stderr (usage_msg @ newline)]
    \<and> requested_models (trace (fst (run iv w))) = [''base'']
    \<and> (\<forall>m w1 e w2.
          load_model wh ''base'' w0 = (Inr m, w1) \<and> transcribe m path w1 = (Inl e, w2)
          \<longrightarrow> run iv w = (unhandled [Call_load_model ''base'', Ret_load_model,
                                      Call_transcribe path] e, w2))
    \<and> (\<forall>m w1 r w2 t.
          load_model wh ''base'' w0 = (Inr m, w1) \<and> transcribe m path w1 = (Inr r, w2)
          \<and> r ''text'' = Some (PStr t) \<and> encodable (stdout_encoding w) t
          \<longrightarrow> stdout_of (trace (fst (run iv w))) = t @ newline
              \<and> status (fst (run iv w)) = 0 \<and> snd (run iv w) = w2)"
proof (intro conjI allI impI)
  show "run iv w = run (iv\<lparr>argv := [prog, path]\<rparr>) w"
    using assms by (simp add: run_def split: prod.splits sum.splits)
next
  show "trace (fst (run iv w)) \<noteq> [Stderr (usage_msg @ newline)]"
    using assms
    by (auto simp add: run_def unhandled_def print_stdout_def split: prod.splits sum.splits)
next
  show "requested_models (trace (fst (run iv w))) = [''base'']"
    using assms
    by (auto simp add: run_def unhandled_def print_stdout_def split: prod.splits sum.splits)
next
  fix m w1 e w2
  assume "load_model wh ''base'' w0 = (Inr m, w1) \<and> transcribe m path w1 = (Inl e, w2)"
  then have "load_model wh ''base'' w0 = (Inr m, w1)" and "transcribe m path w1 = (Inl e, w2)"
    by simp_all
  with assms show "run iv w = (unhandled [Call_load_model ''base'', Ret_load_model,
                                          Call_transcribe path] e, w2)"
    by (simp add: run_def)
next
  fix m w1 r w2 t
  assume "load_model wh ''base'' w0 = (Inr m, w1) \<and> transcribe m path w1 = (Inr r, w2)
          \<and> r ''text'' = Some (PStr t) \<and> encodable (stdout_encoding w) t"
  then have h: "load_model wh ''base'' w0 = (Inr m, w1)" "transcribe m path w1 = (Inr r, w2)"
    "r ''text'' = Some (PStr t)" "encodable (stdout_encoding w) t"
    by simp_all
  from assms h show "stdout_of (trace (fst (run iv w))) = t @ newline"
    by (simp add: run_def getitem_def print_stdout_def)
  from assms h show "status (fst (run iv w)) = 0"
    by (simp add: run_def getitem_def print_stdout_def)
  from assms h show "snd (run iv w) = w2"
    by (simp add: run_def getitem_def print_stdout_def)
qed

text \<open>
  Two audio files with different contents, and a capability whose transcript is the
  content of the file it is given: the transcript printed is that of the first argument.
\<close>

theorem extra_arguments_ignored_witness:
  "run file_invocation audio_world
     = run (file_invocation\<lparr>argv := [''whisper_transcribe.py'', ''a.wav'']\<rparr>) audio_world
   \<and> stdout_of (trace (fst (run file_invocation audio_world))) = ''hello world'' @ newline
   \<and> status (fst (run file_invocation audio_world)) = 0"
proof -
  let ?w0 = "audio_world\<lparr>files := (files audio_world)
                                      (''__pycache__/whisper.pyc'' \<mapsto> ''bytecode'')\<rparr>"
  let ?w1 = "?w0\<lparr>files := (files ?w0)(''base'' @ ''.pt'' \<mapsto> ''weights'')\<rparr>"
  have 1: "import_whisper file_invocation audio_world = (Imported caching_whisper, ?w0)"
    by (simp add: file_invocation_def compiling_import_def)
  have 2: "argv file_invocation = ''whisper_transcribe.py'' # ''a.wav'' # [''b.wav'']"
    by (simp add: file_invocation_def)
  have 3: "load_model caching_whisper ''base'' ?w0 = (Inr file_model, ?w1)
           \<and> transcribe file_model ''a.wav'' ?w1 = (Inr [''text'' \<mapsto> PStr ''hello world''], ?w1)
           \<and> [''text'' \<mapsto> PStr ''hello world''] ''text'' = Some (PStr ''hello world'')
           \<and> encodable (stdout_encoding audio_world) ''hello world''"
    by (simp add: caching_whisper_def file_model_def audio_world_def stdout_encoding_def)
  note T = extra_arguments_ignored [OF 1 2]
  have a: "run file_invocation audio_world
     = run (file_invocation\<lparr>argv := [''whisper_transcribe.py'', ''a.wav'']\<rparr>) audio_world"
    by (rule T [THEN conjunct1])
  have b: "stdout_of (trace (fst (run file_invocation audio_world))) = ''hello world'' @ newline
           \<and> status (fst (run file_invocation audio_world)) = 0
           \<and> snd (run file_invocation audio_world) = ?w1"
    by (rule T [THEN conjunct2, THEN conjunct2, THEN conjunct2, THEN conjunct2,
                rule_format, OF 3])
  from a b show ?thesis
    by simp
qed

text \<open>
  C10. When transcription returns a result without a \<open>text\<close> field, the lookup raises
  \<open>KeyError\<close>, which nobody catches: the run ends with the interpreter's report of it,
  standard output stays empty (no default or empty transcript is printed) and the exit
  status is not 0.
\<close>

theorem missing_text_field_fails:
  assumes "import_whisper iv w = (Imported wh, w0)"
    and "2 \<le> length (argv iv)"
    and "load_model wh ''base'' w0 = (Inr m, w1)"
    and "transcribe m (argv iv ! 1) w1 = (Inr r, w2)"
    and "r ''text'' = None"
  shows "last (trace (fst (run iv w))) = Traceback (KeyError ''text'')
         \<and> stdout_of (trace (fst (run iv w))) = []
         \<and> status (fst (run iv w)) \<noteq> 0"
  using assms by (simp add: run_def unhandled_def getitem_def)

theorem missing_text_field_fails_witness:
  "last (trace (fst (run (hello_invocation
           \<lparr>import_whisper := importing (stub_whisper (stub_model textless_result))\<rparr>)
           empty_world)))
     = Traceback (KeyError ''text'')
   \<and> stdout_of (trace (fst (run (hello_invocation
           \<lparr>import_whisper := importing (stub_whisper (stub_model textless_result))\<rparr>)
           empty_world))) = []
   \<and> status (fst (run (hello_invocation
           \<lparr>import_whisper := importing (stub_whisper (stub_model textless_result))\<rparr>)
           empty_world)) \<noteq> 0"
proof -
  let ?iv = "hello_invocation
               \<lparr>import_whisper := importing (stub_whisper (stub_model textless_result))\<rparr>"
  have 1: "import_whisper ?iv empty_world
           = (Imported (stub_whisper (stub_model textless_result)), empty_world)"
    by (simp add: importing_def)
  have 2: "2 \<le> length (argv ?iv)"
    by (simp add: hello_invocation_def)
  have 3: "load_model (stub_whisper (stub_model textless_result)) ''base'' empty_world
           = (Inr (stub_model textless_result), empty_world)"
    by (simp add: stub_defs)
  have 4: "transcribe (stub_model textless_result) (argv ?iv ! 1) empty_world
           = (Inr textless_result, empty_world)"
    by (simp add: stub_defs)
  have 5: "textless_result ''text'' = None"
    by (simp add: textless_result_def)
  show ?thesis
    by (rule missing_text_field_fails [OF 1 2 3 4 5])
qed

end
